theory Spec2Isabelle
  imports Main
begin

section \<open>Data model (models.py)\<close>

text \<open>
  The three tables of \<^verbatim>\<open>models.py\<close>. A \<^verbatim>\<open>Date\<close> column holds a calendar day,
  modelled by its proleptic ordinal (\<^verbatim>\<open>date.toordinal()\<close>), so that subtracting two
  dates gives \<^verbatim>\<open>timedelta.days\<close>; a nullable column is an \<open>option\<close>; a
  \<^verbatim>\<open>String\<close> column is taken to hold any string. Field names
  are qualified by their class, as the queries of \<^verbatim>\<open>main.py\<close> write them
  (\<^verbatim>\<open>Book.code\<close>, \<^verbatim>\<open>Borrowing.member_code\<close>).
\<close>

type_synonym date = int

record Book =
  Book_code :: string
  Book_title :: string
  Book_author :: string
  Book_stock :: int
  Book_borrowed :: int
  Book_image :: string

record Member =
  Member_code :: string
  Member_name :: string
  Member_penalty_end_date :: "date option"

record Borrowing =
  Borrowing_id :: string
  Borrowing_member_code :: string
  Borrowing_book_code :: string
  Borrowing_borrowed_at :: date

text \<open>
  The persisted state: one list of rows per table, in the order a scan returns them.
  \<^verbatim>\<open>Base.metadata.create_all(engine, checkfirst=True)\<close> creates the tables empty.
\<close>

record db =
  books :: "Book list"
  members :: "Member list"
  borrowings :: "Borrowing list"

definition init_db :: db where
  "init_db = \<lparr>books = [], members = [], borrowings = []\<rparr>"

section \<open>Responses\<close>

text \<open>
  A handler either raises \<^verbatim>\<open>HTTPException(status_code, detail)\<close>, or lets another
  exception escape (an \<^verbatim>\<open>AttributeError\<close> on \<^verbatim>\<open>None\<close>, the store's
  \<^verbatim>\<open>IntegrityError\<close> or range error, an \<^verbatim>\<open>OverflowError\<close> of date arithmetic,
  a client error of the cover lookup), which \<^verbatim>\<open>exception_handler\<close> turns into the default 500 response,
  or returns a 200 \<^verbatim>\<open>JSONResponse\<close>.
\<close>

datatype entity = MemberE | BookE

datatype error =
    NotFound entity
  | OutOfStock
  | BorrowLimitExceeded
  | MemberPenalized
  | DuplicateBorrowing
  | NotBorrowed
  | InternalError

fun status_code :: "error \<Rightarrow> nat" where
  "status_code (NotFound _) = 404"
| "status_code InternalError = 500"
| "status_code _ = 400"

fun detail :: "error \<Rightarrow> string" where
  "detail (NotFound MemberE) = ''Member not found''"
| "detail (NotFound BookE) = ''Book not found''"
| "detail OutOfStock = ''Book is currently out of stock''"
| "detail BorrowLimitExceeded = ''Member cannot borrow more than 2 books''"
| "detail MemberPenalized = ''Member is currently penalized''"
| "detail DuplicateBorrowing = ''Member has already borrowed this book''"
| "detail NotBorrowed = ''Book is not borrowed by this member''"
| "detail InternalError = ''Internal Server Error''"

text \<open>The 200 payloads: the message, with the field the handler adds to it.\<close>

datatype ok =
    BookCreated string
  | BookUpdated
  | BookDeleted
  | MemberCreated string
  | BookBorrowed string
  | BookReturned

type_synonym response = "error + ok"

section \<open>Formatting of generated codes\<close>

text \<open>
  \<^verbatim>\<open>f"M{n:03}"\<close>: the decimal digits of \<open>n\<close>, padded on the left with zeros to
  at least three characters.
\<close>

definition digit :: "nat \<Rightarrow> char" where
  "digit d = ''0123456789'' ! d"

fun decimal :: "nat \<Rightarrow> string" where
  "decimal n = (if n < 10 then [digit n] else decimal (n div 10) @ [digit (n mod 10)])"

declare decimal.simps [simp del]

definition format03 :: "nat \<Rightarrow> string" where
  "format03 n = replicate (3 - length (decimal n)) CHR ''0'' @ decimal n"

section \<open>Queries\<close>

text \<open>\<^verbatim>\<open>db.query(Book).filter(Book.code == code).first()\<close>\<close>

definition query_book :: "string \<Rightarrow> db \<Rightarrow> Book option" where
  "query_book c s = find (\<lambda>b. Book_code b = c) (books s)"

text \<open>\<^verbatim>\<open>db.query(Member).filter(Member.code == member_code).first()\<close>\<close>

definition query_member :: "string \<Rightarrow> db \<Rightarrow> Member option" where
  "query_member c s = find (\<lambda>m. Member_code m = c) (members s)"

text \<open>
  \<^verbatim>\<open>db.query(Borrowing).filter(Borrowing.member_code == mc, Borrowing.book_code == bc).first()\<close>
\<close>

definition query_borrowing :: "string \<Rightarrow> string \<Rightarrow> db \<Rightarrow> Borrowing option" where
  "query_borrowing mc bc s =
     find (\<lambda>r. Borrowing_member_code r = mc \<and> Borrowing_book_code r = bc) (borrowings s)"

text \<open>The relationship \<^verbatim>\<open>member.borrowings\<close>: the rows whose foreign key is the member.\<close>

definition member_borrowings :: "Member \<Rightarrow> db \<Rightarrow> Borrowing list" where
  "member_borrowings m s =
     filter (\<lambda>r. Borrowing_member_code r = Member_code m) (borrowings s)"

text \<open>
  An attribute assignment on a loaded row followed by \<^verbatim>\<open>db.commit()\<close>: an
  \<^verbatim>\<open>UPDATE ... WHERE code = c\<close>.
\<close>

definition update_book_row :: "string \<Rightarrow> (Book \<Rightarrow> Book) \<Rightarrow> db \<Rightarrow> db" where
  "update_book_row c f s =
     s\<lparr>books := map (\<lambda>b. if Book_code b = c then f b else b) (books s)\<rparr>"

definition update_member_row :: "string \<Rightarrow> (Member \<Rightarrow> Member) \<Rightarrow> db \<Rightarrow> db" where
  "update_member_row c f s =
     s\<lparr>members := map (\<lambda>m. if Member_code m = c then f m else m) (members s)\<rparr>"

section \<open>Books (main.py)\<close>

text \<open>
  What the request to the catalogue search service gave: any failure that raises
  (connection error, \<^verbatim>\<open>raise_for_status\<close>, a body that is not the expected JSON), or
  the document's \<^verbatim>\<open>numFound\<close> and, for each entry of \<^verbatim>\<open>docs\<close>, its
  \<^verbatim>\<open>cover_i\<close> as the text the f-string prints, when it has one.
\<close>

datatype lookup =
    LookupFailed
  | SearchResult int "string option list"

text \<open>The loop over \<^verbatim>\<open>data["docs"]\<close>, left at the first document with a \<^verbatim>\<open>cover_i\<close>.\<close>

fun first_cover :: "string option list \<Rightarrow> string option" where
  "first_cover [] = None"
| "first_cover (None # ds) = first_cover ds"
| "first_cover (Some c # ds) = Some c"

definition cover_image_url :: "string \<Rightarrow> string" where
  "cover_image_url cover_i = ''https://covers.openlibrary.org/b/id/'' @ cover_i @ ''-L.jpg''"

text \<open>
  A \<^verbatim>\<open>Column(Integer)\<close> holds a signed integer of the width the engine behind
  \<^verbatim>\<open>DATABASE_URL\<close> gives the type (32 bits on PostgreSQL and MySQL, 64 bits on
  SQLite); the width is not fixed by the source and is the parameter
  \<open>integer_bits\<close>. A commit that binds a value outside the range raises.
\<close>

definition integer_column :: "nat \<Rightarrow> int \<Rightarrow> bool" where
  "integer_column integer_bits n \<longleftrightarrow>
     - (2 ^ (integer_bits - 1)) \<le> n \<and> n < 2 ^ (integer_bits - 1)"

text \<open>
  \<^verbatim>\<open>create_book\<close>. The first commit inserts the row; it raises when the primary
  key finds the code stored already (\<^verbatim>\<open>IntegrityError\<close>) or the stock does not fit
  the integer column, and then nothing is stored. The lookup runs after that commit,
  so an exception there leaves the inserted row in place.
\<close>

definition create_book ::
  "nat \<Rightarrow> string \<Rightarrow> string \<Rightarrow> string \<Rightarrow> int \<Rightarrow> lookup \<Rightarrow> db \<Rightarrow> response \<times> db" where
  "create_book integer_bits code title author stock lk s =
     (let book = \<lparr>Book_code = code, Book_title = title, Book_author = author,
                  Book_stock = stock, Book_borrowed = 0, Book_image = ''''\<rparr>
      in if code \<in> set (map Book_code (books s)) then (Inl InternalError, s)
         else if integer_column integer_bits stock then
           (let s1 = s\<lparr>books := books s @ [book]\<rparr>
            in case lk of
                 LookupFailed \<Rightarrow> (Inl InternalError, s1)
               | SearchResult numFound docs \<Rightarrow>
                   if numFound > 0 then
                     (case first_cover docs of
                        Some cover_i \<Rightarrow>
                          (Inr (BookCreated (cover_image_url cover_i)),
                           update_book_row code
                             (\<lambda>b. b\<lparr>Book_image := cover_image_url cover_i\<rparr>) s1)
                      | None \<Rightarrow> (Inr (BookCreated ''''), s1))
                   else (Inr (BookCreated ''''), s1))
         else (Inl InternalError, s))"


text \<open>
  \<^verbatim>\<open>delete_book\<close>. \<^verbatim>\<open>Book\<close> has no relationship to \<^verbatim>\<open>Borrowing\<close>, so the
  session emits the \<^verbatim>\<open>DELETE\<close> alone. \<^verbatim>\<open>Borrowing.book_code\<close> is declared
  \<^verbatim>\<open>ForeignKey("books.code")\<close>; whether the engine behind \<^verbatim>\<open>DATABASE_URL\<close>
  enforces the constraint is not fixed by the source and is the parameter
  \<open>fk_enforced\<close>: an enforcing engine rejects the delete of a referenced row
  (\<^verbatim>\<open>IntegrityError\<close>).
\<close>

definition delete_book :: "bool \<Rightarrow> string \<Rightarrow> db \<Rightarrow> response \<times> db" where
  "delete_book fk_enforced code s =
     (case query_book code s of
        None \<Rightarrow> (Inl (NotFound BookE), s)
      | Some book \<Rightarrow>
          if fk_enforced \<and> Book_code book \<in> set (map Borrowing_book_code (borrowings s))
          then (Inl InternalError, s)
          else (Inr BookDeleted,
                s\<lparr>books := filter (\<lambda>b. Book_code b \<noteq> Book_code book) (books s)\<rparr>))"

section \<open>Members\<close>


section \<open>Borrowing and returning\<close>

text \<open>
  \<^verbatim>\<open>member.penalty_end_date and member.penalty_end_date > date.today()\<close>; a
  \<^verbatim>\<open>date\<close> object is always true, so the first conjunct tests for \<^verbatim>\<open>None\<close>.
\<close>

definition penalized :: "date \<Rightarrow> Member \<Rightarrow> bool" where
  "penalized today m =
     (case Member_penalty_end_date m of None \<Rightarrow> False | Some p \<Rightarrow> p > today)"

definition borrow_book :: "date \<Rightarrow> string \<Rightarrow> string \<Rightarrow> db \<Rightarrow> response \<times> db" where
  "borrow_book today member_code book_code s =
     (let member = query_member member_code s; book = query_book book_code s
      in case member of
           None \<Rightarrow> (Inl (NotFound MemberE), s)
         | Some member \<Rightarrow>
        (case book of
           None \<Rightarrow> (Inl (NotFound BookE), s)
         | Some book \<Rightarrow>
             if Book_borrowed book \<ge> Book_stock book then (Inl OutOfStock, s)
             else if length (member_borrowings member s) \<ge> 2
               then (Inl BorrowLimitExceeded, s)
             else if penalized today member then (Inl MemberPenalized, s)
             else
               (case query_borrowing member_code book_code s of
                  Some existing_borrowing \<Rightarrow> (Inl DuplicateBorrowing, s)
                | None \<Rightarrow>
                    (let borrowing_id = ''B'' @ format03 (length (borrowings s) + 1);
                         borrowing = \<lparr>Borrowing_id = borrowing_id,
                                       Borrowing_member_code = Member_code member,
                                       Borrowing_book_code = Book_code book,
                                       Borrowing_borrowed_at = today\<rparr>
                     in if borrowing_id \<in> set (map Borrowing_id (borrowings s))
                        then (Inl InternalError, s)
                        else
                          (Inr (BookBorrowed borrowing_id),
                           update_book_row (Book_code book)
                             (\<lambda>b. b\<lparr>Book_borrowed := Book_borrowed b + 1\<rparr>)
                             (s\<lparr>borrowings := borrowings s @ [borrowing]\<rparr>))))))"

text \<open>
  Line 169 of \<^verbatim>\<open>return_book\<close> reads \<^verbatim>\<open>member.code\<close> and \<^verbatim>\<open>book.code\<close> to
  build the borrowing query before the handler tests either for \<^verbatim>\<open>None\<close>: on
  \<^verbatim>\<open>None\<close> the attribute access raises \<^verbatim>\<open>AttributeError\<close>. The outer
  \<open>option\<close> is that exception, the inner one the result of \<^verbatim>\<open>.first()\<close>.
\<close>

definition return_query ::
  "Member option \<Rightarrow> Book option \<Rightarrow> db \<Rightarrow> Borrowing option option" where
  "return_query member book s =
     (case member of
        None \<Rightarrow> None
      | Some m \<Rightarrow>
          (case book of
             None \<Rightarrow> None
           | Some b \<Rightarrow> Some (query_borrowing (Member_code m) (Book_code b) s)))"

text \<open>\<^verbatim>\<open>date.max.toordinal()\<close>: adding a \<^verbatim>\<open>timedelta\<close> beyond it raises.\<close>

definition date_max :: date where
  "date_max = 3652059"

definition return_book :: "date \<Rightarrow> string \<Rightarrow> string \<Rightarrow> db \<Rightarrow> response \<times> db" where
  "return_book today member_code book_code s =
     (let member = query_member member_code s; book = query_book book_code s
      in case return_query member book s of
           None \<Rightarrow> (Inl InternalError, s)
         | Some borrowing \<Rightarrow>
        (case member of
           None \<Rightarrow> (Inl (NotFound MemberE), s)
         | Some member \<Rightarrow>
        (case book of
           None \<Rightarrow> (Inl (NotFound BookE), s)
         | Some book \<Rightarrow>
        (case borrowing of
           None \<Rightarrow> (Inl NotBorrowed, s)
         | Some borrowing \<Rightarrow>
             (let days_overdue = (today - Borrowing_borrowed_at borrowing) - 7;
                  penalty_days = days_overdue * 3
              in if days_overdue > 0 \<and> today + penalty_days > date_max
                 then (Inl InternalError, s)
                 else
                   (let s1 = (if days_overdue > 0
                              then update_member_row (Member_code member)
                                     (\<lambda>m. m\<lparr>Member_penalty_end_date :=
                                              Some (today + penalty_days)\<rparr>) s
                              else s);
                        s2 = s1\<lparr>borrowings :=
                                filter (\<lambda>r. Borrowing_id r \<noteq> Borrowing_id borrowing)
                                  (borrowings s1)\<rparr>;
                        s3 = update_book_row (Book_code book)
                               (\<lambda>b. b\<lparr>Book_borrowed := Book_borrowed b - 1\<rparr>) s2
                    in (Inr BookReturned, s3)))))))"

section \<open>Requests\<close>




section \<open>Properties of the store\<close>




text \<open>
  The specification's reading of borrowing, to compare with \<open>borrow_book\<close>: six
  preconditions, each with the error of its failure, checked in order, and the first
  one that fails gives the error.
\<close>

fun first_failure :: "(bool \<times> error) list \<Rightarrow> error option" where
  "first_failure [] = None"
| "first_failure ((passed, e) # cs) = (if passed then first_failure cs else Some e)"

definition borrow_preconditions_spec ::
  "date \<Rightarrow> string \<Rightarrow> string \<Rightarrow> db \<Rightarrow> (bool \<times> error) list" where
  "borrow_preconditions_spec today mc bc s =
     [(query_member mc s \<noteq> None, NotFound MemberE),
      (query_book bc s \<noteq> None, NotFound BookE),
      (case query_book bc s of
         None \<Rightarrow> False
       | Some b \<Rightarrow> Book_borrowed b < Book_stock b, OutOfStock),
      (case query_member mc s of
         None \<Rightarrow> False
       | Some m \<Rightarrow> length (member_borrowings m s) < 2, BorrowLimitExceeded),
      (case query_member mc s of
         None \<Rightarrow> False
       | Some m \<Rightarrow> \<not> penalized today m, MemberPenalized),
      (query_borrowing mc bc s = None, DuplicateBorrowing)]"

definition borrow_succeeds :: "response \<times> db \<Rightarrow> bool" where
  "borrow_succeeds r = (case fst r of Inr (BookBorrowed _) \<Rightarrow> True | _ \<Rightarrow> False)"

text \<open>
  The lookups that give no cover: the request failed, nothing was found, or no
  document found has a \<^verbatim>\<open>cover_i\<close>.
\<close>

definition lookup_without_cover :: "lookup \<Rightarrow> bool" where
  "lookup_without_cover lk =
     (case lk of
        LookupFailed \<Rightarrow> True
      | SearchResult numFound docs \<Rightarrow> numFound \<le> 0 \<or> first_cover docs = None)"

section \<open>Two stores for the examples\<close>

text \<open>
  \<open>shelf_db\<close>: one book on the shelf and two members, the first with a penalty that
  ends on day 739000. \<open>lent_db\<close>: three books with a copy lent each; the first
  member holds two of them.
\<close>

definition shelf_db :: db where
  "shelf_db =
     \<lparr>books = [\<lparr>Book_code = ''JK-45'', Book_title = ''Harry Potter'',
                 Book_author = ''J.K Rowling'', Book_stock = 1, Book_borrowed = 0,
                 Book_image = ''''\<rparr>],
      members = [\<lparr>Member_code = ''M001'', Member_name = ''Angga'',
                   Member_penalty_end_date = Some 739000\<rparr>,
                 \<lparr>Member_code = ''M002'', Member_name = ''Ferry'',
                   Member_penalty_end_date = None\<rparr>],
      borrowings = []\<rparr>"

definition lent_db :: db where
  "lent_db =
     \<lparr>books = [\<lparr>Book_code = ''JK-45'', Book_title = ''Harry Potter'',
                 Book_author = ''J.K Rowling'', Book_stock = 1, Book_borrowed = 1,
                 Book_image = ''''\<rparr>,
               \<lparr>Book_code = ''SHR-1'', Book_title = ''A Study in Scarlet'',
                 Book_author = ''Arthur Conan Doyle'', Book_stock = 1, Book_borrowed = 1,
                 Book_image = ''''\<rparr>,
               \<lparr>Book_code = ''TW-11'', Book_title = ''Twilight'',
                 Book_author = ''Stephenie Meyer'', Book_stock = 2, Book_borrowed = 1,
                 Book_image = ''''\<rparr>],
      members = [\<lparr>Member_code = ''M001'', Member_name = ''Angga'',
                   Member_penalty_end_date = None\<rparr>,
                 \<lparr>Member_code = ''M002'', Member_name = ''Ferry'',
                   Member_penalty_end_date = Some 738000\<rparr>],
      borrowings = [\<lparr>Borrowing_id = ''B001'', Borrowing_member_code = ''M001'',
                      Borrowing_book_code = ''JK-45'', Borrowing_borrowed_at = 738990\<rparr>,
                    \<lparr>Borrowing_id = ''B002'', Borrowing_member_code = ''M001'',
                      Borrowing_book_code = ''SHR-1'', Borrowing_borrowed_at = 738997\<rparr>,
                    \<lparr>Borrowing_id = ''B003'', Borrowing_member_code = ''M002'',
                      Borrowing_book_code = ''TW-11'', Borrowing_borrowed_at = 738998\<rparr>]\<rparr>"

section \<open>Lemmas on queries and updates\<close>

lemma find_key_update:
  assumes "\<And>x. key (f x) = key x"
  shows "find (\<lambda>x. key x = c) (map (\<lambda>x. if key x = c then f x else x) xs)
         = map_option f (find (\<lambda>x. key x = c) xs)"
  using assms by (induction xs) auto

lemma find_snoc:
  "find P (xs @ [y]) =
     (case find P xs of None \<Rightarrow> (if P y then Some y else None) | Some x \<Rightarrow> Some x)"
  by (induction xs) auto



lemma query_book_code: "query_book c s = Some b \<Longrightarrow> Book_code b = c"
  by (auto simp: query_book_def find_Some_iff)


lemma query_member_code: "query_member c s = Some m \<Longrightarrow> Member_code m = c"
  by (auto simp: query_member_def find_Some_iff)

lemma filter_fresh_id:
  "i \<notin> set (map Borrowing_id rs) \<Longrightarrow> filter (\<lambda>r. Borrowing_id r \<noteq> i) rs = rs"
  by (induction rs) auto

lemma borrowed_round_trip:
  "map (\<lambda>b. if Book_code b = c then b\<lparr>Book_borrowed := Book_borrowed b - 1\<rparr> else b)
     (map (\<lambda>b. if Book_code b = c then b\<lparr>Book_borrowed := Book_borrowed b + 1\<rparr> else b) bs)
   = bs"
  by (induction bs) auto

section \<open>What a successful borrow and a successful return do\<close>

lemma borrow_book_success:
  assumes "borrow_book today mc bc s = (Inr (BookBorrowed bid), s1)"
  obtains m b where
    "query_member mc s = Some m" "query_book bc s = Some b"
    "Book_borrowed b < Book_stock b" "query_borrowing mc bc s = None"
    "bid \<notin> set (map Borrowing_id (borrowings s))"
    "s1 = update_book_row bc (\<lambda>b. b\<lparr>Book_borrowed := Book_borrowed b + 1\<rparr>)
            (s\<lparr>borrowings := borrowings s @
                 [\<lparr>Borrowing_id = bid, Borrowing_member_code = mc,
                   Borrowing_book_code = bc, Borrowing_borrowed_at = today\<rparr>]\<rparr>)"
proof -
  obtain m b where m: "query_member mc s = Some m" and b: "query_book bc s = Some b"
    using assms by (auto simp: borrow_book_def Let_def split: option.splits)
  have "Member_code m = mc" and "Book_code b = bc"
    using m b by (auto dest: query_member_code query_book_code)
  with assms m b that show thesis
    by (auto simp: borrow_book_def Let_def split: option.splits if_splits)
qed


lemma return_book_success:
  assumes "return_book today mc bc s = (Inr BookReturned, s')"
  obtains m b r where
    "query_member mc s = Some m" "query_book bc s = Some b"
    "query_borrowing mc bc s = Some r"
    "books s' = map (\<lambda>x. if Book_code x = bc
                          then x\<lparr>Book_borrowed := Book_borrowed x - 1\<rparr> else x) (books s)"
    "borrowings s' = filter (\<lambda>x. Borrowing_id x \<noteq> Borrowing_id r) (borrowings s)"
    "members s' =
       (if today - Borrowing_borrowed_at r - 7 > 0
        then map (\<lambda>x. if Member_code x = mc
                       then x\<lparr>Member_penalty_end_date :=
                               Some (today + (today - Borrowing_borrowed_at r - 7) * 3)\<rparr>
                       else x) (members s)
        else members s)"
proof -
  obtain m b where m: "query_member mc s = Some m" and b: "query_book bc s = Some b"
    using assms by (auto simp: return_book_def return_query_def Let_def split: option.splits)
  have mc: "Member_code m = mc" and bc: "Book_code b = bc"
    using m b by (auto dest: query_member_code query_book_code)
  obtain r where r: "query_borrowing mc bc s = Some r"
    using assms m b mc bc
    by (auto simp: return_book_def return_query_def Let_def split: option.splits)
  show thesis
  proof (rule that [OF m b r])
    show "books s' = map (\<lambda>x. if Book_code x = bc
                          then x\<lparr>Book_borrowed := Book_borrowed x - 1\<rparr> else x) (books s)"
      using assms m b r mc bc
      by (auto simp: return_book_def return_query_def Let_def update_book_row_def
          update_member_row_def split: if_splits)
    show "borrowings s' = filter (\<lambda>x. Borrowing_id x \<noteq> Borrowing_id r) (borrowings s)"
      using assms m b r mc bc
      by (auto simp: return_book_def return_query_def Let_def update_book_row_def
          update_member_row_def split: if_splits)
    show "members s' =
       (if today - Borrowing_borrowed_at r - 7 > 0
        then map (\<lambda>x. if Member_code x = mc
                       then x\<lparr>Member_penalty_end_date :=
                               Some (today + (today - Borrowing_borrowed_at r - 7) * 3)\<rparr>
                       else x) (members s)
        else members s)"
      using assms m b r mc bc
      by (auto simp: return_book_def return_query_def Let_def update_book_row_def
          update_member_row_def split: if_splits)
  qed
qed

lemma return_book_None:
  "query_member mc s = None \<or> query_book bc s = None \<Longrightarrow>
     return_book today mc bc s = (Inl InternalError, s)"
  by (auto simp: return_book_def return_query_def Let_def split: option.splits)

lemma return_book_not_borrowed:
  "query_member mc s = Some m \<Longrightarrow> query_book bc s = Some b \<Longrightarrow>
   query_borrowing mc bc s = None \<Longrightarrow>
     return_book today mc bc s = (Inl NotBorrowed, s)"
  by (auto simp: return_book_def return_query_def Let_def
      dest!: query_member_code query_book_code split: option.splits)


lemma return_book_never_not_found:
  "fst (return_book today mc bc s) \<noteq> Inl (NotFound x)"
  by (auto simp: return_book_def return_query_def Let_def split: option.splits if_splits)

section \<open>The penalty check of borrowing\<close>

text \<open>
  C1, as the specification words it: a member whose \<^verbatim>\<open>penalty_end_date\<close> is today is
  rejected with \<open>MemberPenalized\<close>. The handler compares with \<^verbatim>\<open>>\<close>: in
  \<open>shelf_db\<close> member M001 has a penalty ending on day 739000, and a borrow on that
  very day goes through.
\<close>

theorem borrow_on_penalty_end_date:
  "map_option Member_penalty_end_date (query_member ''M001'' shelf_db) = Some (Some 739000)
   \<and> fst (borrow_book 739000 ''M001'' ''JK-45'' shelf_db) = Inr (BookBorrowed ''B001'')"
  by code_simp

text \<open>
  C1, amended: for a request that reaches the penalty check (member and book exist, a
  copy is in stock, the member holds fewer than two books), the answer is
  \<open>MemberPenalized\<close> exactly when \<^verbatim>\<open>penalty_end_date\<close> is set and strictly later
  than today; a date that is null, earlier than today or equal to today passes.
\<close>

theorem borrow_penalty_check:
  assumes "query_member mc s = Some m" and "query_book bc s = Some b"
    and "Book_borrowed b < Book_stock b" and "length (member_borrowings m s) < 2"
  shows "(borrow_book today mc bc s = (Inl MemberPenalized, s)
           \<longleftrightarrow> (\<exists>p. Member_penalty_end_date m = Some p \<and> p > today))
       \<and> (fst (borrow_book today mc bc s) = Inl MemberPenalized
           \<longleftrightarrow> (\<exists>p. Member_penalty_end_date m = Some p \<and> p > today))
       \<and> (Member_penalty_end_date m = None \<or> Member_penalty_end_date m = Some today
           \<longrightarrow> fst (borrow_book today mc bc s) \<noteq> Inl MemberPenalized)"
  using assms
  by (auto simp: borrow_book_def penalized_def Let_def split: option.splits)

text \<open>The day before the penalty of M001 ends, the same request is refused.\<close>

theorem borrow_penalty_check_witness:
  "borrow_book 738999 ''M001'' ''JK-45'' shelf_db = (Inl MemberPenalized, shelf_db)"
proof -
  let ?m = "\<lparr>Member_code = ''M001'', Member_name = ''Angga'',
             Member_penalty_end_date = Some 739000\<rparr>"
  let ?b = "\<lparr>Book_code = ''JK-45'', Book_title = ''Harry Potter'',
             Book_author = ''J.K Rowling'', Book_stock = 1, Book_borrowed = 0,
             Book_image = ''''\<rparr>"
  have m: "query_member ''M001'' shelf_db = Some ?m"
    by code_simp
  have b: "query_book ''JK-45'' shelf_db = Some ?b"
    by code_simp
  have lt: "Book_borrowed ?b < Book_stock ?b"
    by simp
  have n: "length (member_borrowings ?m shelf_db) < 2"
    by code_simp
  show ?thesis
    using borrow_penalty_check [OF m b lt n, of 738999] by simp
qed

section \<open>Returning for an unknown member or book\<close>

text \<open>
  C2: a return for a member that does not exist should fail with \<open>NotFound\<close> for the
  member, and for a book that does not exist with \<open>NotFound\<close> for the book. In
  \<open>shelf_db\<close> there is no member M009 and no book NRN-7; both returns end in the
  default 500 response, since the borrowing query reads \<^verbatim>\<open>member.code\<close> and
  \<^verbatim>\<open>book.code\<close> before the tests for \<^verbatim>\<open>None\<close>. The store is left as it was.
\<close>

theorem return_book_unknown_member_or_book:
  "query_member ''M009'' shelf_db = None
   \<and> return_book 739000 ''M009'' ''JK-45'' shelf_db = (Inl InternalError, shelf_db)
   \<and> query_member ''M001'' shelf_db \<noteq> None
   \<and> query_book ''NRN-7'' shelf_db = None
   \<and> return_book 739000 ''M001'' ''NRN-7'' shelf_db = (Inl InternalError, shelf_db)"
  by code_simp

section \<open>The invariant on books\<close>











section \<open>The cover lookup of a new book\<close>

text \<open>
  C4, as the specification words it: no failure of the cover lookup is surfaced as an
  error response. When the request to the search service raises, the book has been
  inserted already and the client gets the default 500 response, whatever the
  engine's integer width.
\<close>

theorem create_book_lookup_failed:
  "fst (create_book 32 ''JK-45'' ''Harry Potter'' ''J.K Rowling'' 1 LookupFailed init_db)
     = Inl InternalError
   \<and> fst (create_book 64 ''JK-45'' ''Harry Potter'' ''J.K Rowling'' 1 LookupFailed init_db)
     = Inl InternalError
   \<and> status_code InternalError = 500
   \<and> map_option Book_image
       (query_book ''JK-45''
          (snd (create_book 64 ''JK-45'' ''Harry Potter'' ''J.K Rowling'' 1 LookupFailed
                  init_db)))
     = Some ''''"
  by code_simp

text \<open>
  C4, amended: for a creation request that the store accepts (the code is not stored
  yet and the stock fits the engine's integer column), every lookup without a cover
  (lookup error, no results, no cover identifier) leaves the stored book with the
  empty string as image; with no results or no cover identifier the request returns
  success with that empty image, and with a lookup error the client receives the
  default 500 response.
\<close>

theorem create_book_without_cover:
  assumes "code \<notin> set (map Book_code (books s))"
    and "integer_column integer_bits stock"
    and "lookup_without_cover lk"
  shows "query_book code (snd (create_book integer_bits code title author stock lk s))
           = Some \<lparr>Book_code = code, Book_title = title, Book_author = author,
                    Book_stock = stock, Book_borrowed = 0, Book_image = ''''\<rparr>
       \<and> (lk \<noteq> LookupFailed \<longrightarrow>
            fst (create_book integer_bits code title author stock lk s)
              = Inr (BookCreated ''''))
       \<and> (lk = LookupFailed \<longrightarrow>
            fst (create_book integer_bits code title author stock lk s) = Inl InternalError)"
proof -
  have "find (\<lambda>b. Book_code b = code) (books s) = None"
    using assms(1) by (auto simp: find_None_iff)
  then show ?thesis
    using assms
    by (auto simp: create_book_def lookup_without_cover_def Let_def query_book_def find_snoc
        split: lookup.splits)
qed

text \<open>A search that finds two documents, neither with a cover.\<close>

theorem create_book_without_cover_witness:
  "fst (create_book 64 ''NRN-7'' ''The Lion, the Witch and the Wardrobe'' ''C.S. Lewis'' 1
          (SearchResult 2 [None, None]) shelf_db) = Inr (BookCreated '''')
   \<and> map_option Book_image
       (query_book ''NRN-7''
          (snd (create_book 64 ''NRN-7'' ''The Lion, the Witch and the Wardrobe''
                  ''C.S. Lewis'' 1 (SearchResult 2 [None, None]) shelf_db))) = Some ''''"
proof -
  have fresh: "''NRN-7'' \<notin> set (map Book_code (books shelf_db))"
    by code_simp
  have fits: "integer_column 64 1"
    by code_simp
  have nc: "lookup_without_cover (SearchResult 2 [None, None])"
    by code_simp
  show ?thesis
    using create_book_without_cover [OF fresh fits nc,
        of "''The Lion, the Witch and the Wardrobe''" "''C.S. Lewis''"]
    by simp
qed

section \<open>The penalty set by a return\<close>

text \<open>
  C5: for every successful return of a borrowing made \<open>d\<close> days before today, the
  member's \<^verbatim>\<open>penalty_end_date\<close> is left as it was when \<open>d \<le> 7\<close> and becomes
  \<open>today + 3 * (d - 7)\<close> when \<open>d > 7\<close>, whatever it was before: three days later for
  \<open>d = 8\<close>, twenty-four days later for \<open>d = 15\<close>.
\<close>

theorem return_book_penalty:
  assumes "return_book today mc bc s = (Inr BookReturned, s')"
    and "query_member mc s = Some m"
    and "query_borrowing mc bc s = Some r"
    and "d = today - Borrowing_borrowed_at r"
  shows "query_member mc s' =
           Some (if d > 7 then m\<lparr>Member_penalty_end_date := Some (today + 3 * (d - 7))\<rparr>
                 else m)
       \<and> (d = 8 \<longrightarrow>
            map_option Member_penalty_end_date (query_member mc s') = Some (Some (today + 3)))
       \<and> (d = 15 \<longrightarrow>
            map_option Member_penalty_end_date (query_member mc s') = Some (Some (today + 24)))"
proof -
  obtain r' where r': "query_borrowing mc bc s = Some r'"
    and ms: "members s' =
       (if today - Borrowing_borrowed_at r' - 7 > 0
        then map (\<lambda>x. if Member_code x = mc
                       then x\<lparr>Member_penalty_end_date :=
                               Some (today + (today - Borrowing_borrowed_at r' - 7) * 3)\<rparr>
                       else x) (members s)
        else members s)"
    using assms(1) by (rule return_book_success)
  have "r' = r"
    using r' assms(3) by simp
  then have main: "query_member mc s' =
      Some (if d > 7 then m\<lparr>Member_penalty_end_date := Some (today + 3 * (d - 7))\<rparr> else m)"
    using ms assms(2,4)
    by (auto simp: query_member_def find_key_update algebra_simps)
  show ?thesis
    unfolding main by simp
qed

text \<open>M001 returns JK-45, borrowed on day 738990, on day 738998: eight days later.\<close>

theorem return_book_penalty_witness:
  "map_option Member_penalty_end_date
     (query_member ''M001'' (snd (return_book 738998 ''M001'' ''JK-45'' lent_db)))
   = Some (Some 739001)"
proof -
  let ?m = "\<lparr>Member_code = ''M001'', Member_name = ''Angga'',
             Member_penalty_end_date = None\<rparr>"
  let ?r = "\<lparr>Borrowing_id = ''B001'', Borrowing_member_code = ''M001'',
             Borrowing_book_code = ''JK-45'', Borrowing_borrowed_at = 738990\<rparr>"
  have ok: "return_book 738998 ''M001'' ''JK-45'' lent_db
      = (Inr BookReturned, snd (return_book 738998 ''M001'' ''JK-45'' lent_db))"
    by code_simp
  have m: "query_member ''M001'' lent_db = Some ?m"
    by code_simp
  have r: "query_borrowing ''M001'' ''JK-45'' lent_db = Some ?r"
    by code_simp
  have d: "(8::int) = 738998 - Borrowing_borrowed_at ?r"
    by simp
  show ?thesis
    using return_book_penalty [OF ok m r d] by simp
qed

section \<open>The stock check of borrowing\<close>




section \<open>The order of the checks of borrowing\<close>

text \<open>
  C7: borrowing checks, in this order, that the member exists, that the book exists,
  that \<open>borrowed < stock\<close>, that the member holds fewer than two books, that the
  member is not penalized and that the member does not hold this book already; the
  first check that fails gives the error, and the store is not changed. In particular
  a member with exactly two borrowings gets \<open>BorrowLimitExceeded\<close>, one with a single
  borrowing passes that check, and a pair that is borrowed already gets
  \<open>DuplicateBorrowing\<close>.
\<close>

theorem borrow_check_order:
  "(case first_failure (borrow_preconditions_spec today mc bc s) of
      Some e \<Rightarrow> borrow_book today mc bc s = (Inl e, s)
    | None \<Rightarrow> borrow_succeeds (borrow_book today mc bc s)
              \<or> borrow_book today mc bc s = (Inl InternalError, s))
   \<and> (query_member mc s = Some m \<and> query_book bc s = Some b
        \<and> Book_borrowed b < Book_stock b \<longrightarrow>
        (length (member_borrowings m s) = 2 \<longrightarrow>
           borrow_book today mc bc s = (Inl BorrowLimitExceeded, s))
      \<and> (length (member_borrowings m s) = 1 \<longrightarrow>
           fst (borrow_book today mc bc s) \<noteq> Inl BorrowLimitExceeded)
      \<and> (length (member_borrowings m s) < 2 \<and> \<not> penalized today m
           \<and> query_borrowing mc bc s \<noteq> None \<longrightarrow>
           borrow_book today mc bc s = (Inl DuplicateBorrowing, s)))"
  by (auto simp: borrow_preconditions_spec_def borrow_book_def borrow_succeeds_def Let_def
      split: option.splits)

text \<open>
  In \<open>lent_db\<close> M001 holds two books and asks for TW-11; M002 holds TW-11 and asks
  for it again.
\<close>

theorem borrow_check_order_witness:
  "borrow_book 739000 ''M001'' ''TW-11'' lent_db = (Inl BorrowLimitExceeded, lent_db)
   \<and> borrow_book 739000 ''M002'' ''TW-11'' lent_db = (Inl DuplicateBorrowing, lent_db)"
proof -
  let ?m1 = "\<lparr>Member_code = ''M001'', Member_name = ''Angga'',
              Member_penalty_end_date = None\<rparr>"
  let ?m2 = "\<lparr>Member_code = ''M002'', Member_name = ''Ferry'',
              Member_penalty_end_date = Some 738000\<rparr>"
  let ?b = "\<lparr>Book_code = ''TW-11'', Book_title = ''Twilight'',
             Book_author = ''Stephenie Meyer'', Book_stock = 2, Book_borrowed = 1,
             Book_image = ''''\<rparr>"
  have h1: "query_member ''M001'' lent_db = Some ?m1 \<and> query_book ''TW-11'' lent_db = Some ?b
      \<and> Book_borrowed ?b < Book_stock ?b"
    by code_simp
  have n1: "length (member_borrowings ?m1 lent_db) = 2"
    by code_simp
  have h2: "query_member ''M002'' lent_db = Some ?m2 \<and> query_book ''TW-11'' lent_db = Some ?b
      \<and> Book_borrowed ?b < Book_stock ?b"
    by code_simp
  have n2: "length (member_borrowings ?m2 lent_db) < 2 \<and> \<not> penalized 739000 ?m2
      \<and> query_borrowing ''M002'' ''TW-11'' lent_db \<noteq> None"
    by code_simp
  show ?thesis
    using borrow_check_order [of 739000 "''M001''" "''TW-11''" lent_db ?m1 ?b]
      borrow_check_order [of 739000 "''M002''" "''TW-11''" lent_db ?m2 ?b]
      h1 n1 h2 n2
    by blast
qed

section \<open>Borrowing, then returning\<close>

text \<open>
  C8: in every state in which a borrow succeeds, the return of the same member and
  book that follows it (on the same day, or up to seven days later) succeeds and gives
  back the store as it was before the borrow: \<open>borrowed\<close> has its former value and
  the borrowing made by the borrow, which was stored after it, is gone.
\<close>

theorem borrow_then_return:
  assumes "borrow_book today mc bc s = (Inr (BookBorrowed bid), s1)"
    and "today' - today \<le> 7"
  shows "return_book today' mc bc s1 = (Inr BookReturned, s)
       \<and> query_book bc s1 = map_option (\<lambda>b. b\<lparr>Book_borrowed := Book_borrowed b + 1\<rparr>)
                               (query_book bc s)
       \<and> bid \<in> set (map Borrowing_id (borrowings s1))
       \<and> bid \<notin> set (map Borrowing_id (borrowings s))"
proof -
  let ?r = "\<lparr>Borrowing_id = bid, Borrowing_member_code = mc,
              Borrowing_book_code = bc, Borrowing_borrowed_at = today\<rparr>"
  obtain m b where m: "query_member mc s = Some m" and b: "query_book bc s = Some b"
    and nodup: "query_borrowing mc bc s = None"
    and fresh: "bid \<notin> set (map Borrowing_id (borrowings s))"
    and s1: "s1 = update_book_row bc (\<lambda>b. b\<lparr>Book_borrowed := Book_borrowed b + 1\<rparr>)
                    (s\<lparr>borrowings := borrowings s @ [?r]\<rparr>)"
    using assms(1) by (rule borrow_book_success)
  have mc: "Member_code m = mc" and bc: "Book_code b = bc"
    using m b by (auto dest: query_member_code query_book_code)
  have qm: "query_member mc s1 = Some m"
    using m by (simp add: s1 query_member_def update_book_row_def)
  have qb: "query_book bc s1 = Some (b\<lparr>Book_borrowed := Book_borrowed b + 1\<rparr>)"
    using b by (simp add: s1 query_book_def update_book_row_def find_key_update)
  have qr: "query_borrowing mc bc s1 = Some ?r"
    using nodup by (simp add: s1 query_borrowing_def update_book_row_def find_snoc)
  have "return_book today' mc bc s1 = (Inr BookReturned, s)"
    using qm qb qr mc bc assms(2) fresh
    by (simp add: return_book_def return_query_def Let_def s1 update_book_row_def
        filter_fresh_id borrowed_round_trip del: map_map)
  moreover have "bid \<in> set (map Borrowing_id (borrowings s1))"
    by (simp add: s1 update_book_row_def)
  ultimately show ?thesis
    using fresh qb b by simp
qed

text \<open>M002 borrows JK-45 in \<open>shelf_db\<close> and returns it the same day.\<close>

theorem borrow_then_return_witness:
  "return_book 739000 ''M002'' ''JK-45'' (snd (borrow_book 739000 ''M002'' ''JK-45'' shelf_db))
   = (Inr BookReturned, shelf_db)"
proof -
  have ok: "borrow_book 739000 ''M002'' ''JK-45'' shelf_db
      = (Inr (BookBorrowed ''B001''), snd (borrow_book 739000 ''M002'' ''JK-45'' shelf_db))"
    by code_simp
  have le: "(739000::int) - 739000 \<le> 7"
    by simp
  show ?thesis
    using borrow_then_return [OF ok le] by simp
qed

section \<open>What a return in time leaves alone\<close>

text \<open>
  C9: a successful return that is not overdue (\<open>days_overdue \<le> 0\<close>) leaves every
  member as stored, so a penalty assigned earlier is neither cleared nor shortened,
  and changes the books only by taking one from \<open>borrowed\<close> of the returned book.
\<close>

theorem return_on_time_frame:
  assumes "return_book today mc bc s = (Inr BookReturned, s')"
    and "query_borrowing mc bc s = Some r"
    and "(today - Borrowing_borrowed_at r) - 7 \<le> 0"
  shows "members s' = members s
       \<and> books s' = map (\<lambda>b. if Book_code b = bc
                               then b\<lparr>Book_borrowed := Book_borrowed b - 1\<rparr> else b) (books s)"
proof -
  obtain r' where r': "query_borrowing mc bc s = Some r'"
    and bs: "books s' = map (\<lambda>x. if Book_code x = bc
                          then x\<lparr>Book_borrowed := Book_borrowed x - 1\<rparr> else x) (books s)"
    and ms: "members s' =
       (if today - Borrowing_borrowed_at r' - 7 > 0
        then map (\<lambda>x. if Member_code x = mc
                       then x\<lparr>Member_penalty_end_date :=
                               Some (today + (today - Borrowing_borrowed_at r' - 7) * 3)\<rparr>
                       else x) (members s)
        else members s)"
    using assms(1) by (rule return_book_success)
  have "r' = r"
    using r' assms(2) by simp
  then show ?thesis
    using bs ms assms(3) by simp
qed

text \<open>
  M002, whose old penalty ended on day 738000, returns TW-11 two days after borrowing
  it: the penalty date stays.
\<close>

theorem return_on_time_frame_witness:
  "members (snd (return_book 739000 ''M002'' ''TW-11'' lent_db)) = members lent_db
   \<and> map_option Member_penalty_end_date
       (query_member ''M002'' (snd (return_book 739000 ''M002'' ''TW-11'' lent_db)))
     = Some (Some 738000)"
proof -
  let ?r = "\<lparr>Borrowing_id = ''B003'', Borrowing_member_code = ''M002'',
             Borrowing_book_code = ''TW-11'', Borrowing_borrowed_at = 738998\<rparr>"
  have ok: "return_book 739000 ''M002'' ''TW-11'' lent_db
      = (Inr BookReturned, snd (return_book 739000 ''M002'' ''TW-11'' lent_db))"
    by code_simp
  have r: "query_borrowing ''M002'' ''TW-11'' lent_db = Some ?r"
    by code_simp
  have d: "(739000 - Borrowing_borrowed_at ?r) - 7 \<le> 0"
    by simp
  have m: "map_option Member_penalty_end_date
       (find (\<lambda>m. Member_code m = ''M002'') (members lent_db)) = Some (Some 738000)"
    by code_simp
  show ?thesis
    using return_on_time_frame [OF ok r d] m by (simp add: query_member_def)
qed

section \<open>Deleting a book that is lent\<close>

text \<open>
  C10, as it is worded: deleting an existing book succeeds even when borrowings refer
  to it. JK-45 of \<open>lent_db\<close> is referred to by borrowing B001; on an engine that
  enforces the foreign key declared for \<^verbatim>\<open>Borrowing.book_code\<close> the delete is refused
  by the store and the client gets the default 500 response.
\<close>

theorem delete_book_referenced:
  "query_book ''JK-45'' lent_db \<noteq> None
   \<and> ''JK-45'' \<in> set (map Borrowing_book_code (borrowings lent_db))
   \<and> delete_book True ''JK-45'' lent_db = (Inl InternalError, lent_db)"
  by code_simp

text \<open>
  C10, amended: for every existing book, the delete request never deletes or changes a
  borrowing (nor a member); it succeeds and removes the book when no borrowing refers
  to the book or the engine does not enforce the foreign key, also with borrowings
  that refer to it; when a borrowing refers to the book and the engine enforces the
  foreign key, it ends in the default 500 response and the store is unchanged.
\<close>

theorem delete_book_frame:
  assumes "query_book code s = Some b"
  shows "borrowings (snd (delete_book fk_enforced code s)) = borrowings s
       \<and> members (snd (delete_book fk_enforced code s)) = members s
       \<and> (\<not> fk_enforced \<or> code \<notin> set (map Borrowing_book_code (borrowings s)) \<longrightarrow>
            fst (delete_book fk_enforced code s) = Inr BookDeleted
            \<and> query_book code (snd (delete_book fk_enforced code s)) = None)
       \<and> (fk_enforced \<and> code \<in> set (map Borrowing_book_code (borrowings s)) \<longrightarrow>
            delete_book fk_enforced code s = (Inl InternalError, s))"
  using assms query_book_code [OF assms]
  by (auto simp: delete_book_def query_book_def find_None_iff)

text \<open>The same delete on an engine that does not enforce the foreign key.\<close>

theorem delete_book_frame_witness:
  "fst (delete_book False ''JK-45'' lent_db) = Inr BookDeleted
   \<and> query_book ''JK-45'' (snd (delete_book False ''JK-45'' lent_db)) = None
   \<and> borrowings (snd (delete_book False ''JK-45'' lent_db)) = borrowings lent_db"
proof -
  have b: "query_book ''JK-45'' lent_db
      = Some \<lparr>Book_code = ''JK-45'', Book_title = ''Harry Potter'',
               Book_author = ''J.K Rowling'', Book_stock = 1, Book_borrowed = 1,
               Book_image = ''''\<rparr>"
    by code_simp
  show ?thesis
    using delete_book_frame [OF b, of False] by simp
qed

end
